theory Spec2Isabelle
  imports Complex_Main "HOL-Library.Word"
begin

section \<open>Python values as the decoder hands them over\<close>

text \<open>
  The exceptions that the modelled code raises, catches or lets through.
  \<open>HTTPException\<close> is what Flask's \<open>abort(code)\<close> raises.
\<close>

datatype exn =
    ValueError
  | TypeError
  | OverflowError
  | AttributeError
  | UnboundLocalError
  | IndexError
  | FileNotFoundError
  | InvalidDicomError
  | UniqueViolation
  | HTTPException nat

text \<open>
  A float is seen by the cataloging code only through \<open>str()\<close> and \<open>int()\<close>, so a finite
  float is carried as its printed form and its truncation towards zero; the two infinities
  and NaN are the values on which \<open>int()\<close> raises.
\<close>

datatype pyfloat =
    Finite string int
  | PosInf
  | NegInf
  | NaN

text \<open>
  The values a dataset element can hold: \<open>None\<close>, a string, an integer, a float, a
  multi-valued container (\<open>multival.MultiValue\<close>, \<open>list\<close>, \<open>tuple\<close>) given by what
  \<open>str()\<close> prints for it and its items, and any other object (a person name, a nested
  sequence) given by its printed form, on which \<open>int()\<close> is a \<open>TypeError\<close>.
  Strings are sequences of code points below 256.
\<close>

datatype pyval =
    PNone
  | PStr string
  | PInt int
  | PFloat pyfloat
  | PSeq string "pyval list"
  | PObj string

subsection \<open>\<open>str.isspace\<close>, \<open>str.strip\<close>, \<open>str.isalnum\<close>\<close>

definition py_isspace :: "char \<Rightarrow> bool" where
  "py_isspace c =
     (let n = (of_char c :: nat)
      in (9 \<le> n \<and> n \<le> 13) \<or> (28 \<le> n \<and> n \<le> 32) \<or> n = 133 \<or> n = 160)"

definition strip :: "string \<Rightarrow> string" where
  "strip s = rev (dropWhile py_isspace (rev (dropWhile py_isspace s)))"

definition py_isdigit_ascii :: "char \<Rightarrow> bool" where
  "py_isdigit_ascii c = (let n = (of_char c :: nat) in 48 \<le> n \<and> n \<le> 57)"

definition py_isalnum :: "char \<Rightarrow> bool" where
  "py_isalnum c =
     (let n = (of_char c :: nat)
      in (48 \<le> n \<and> n \<le> 57) \<or> (65 \<le> n \<and> n \<le> 90) \<or> (97 \<le> n \<and> n \<le> 122)
         \<or> n = 170 \<or> n = 178 \<or> n = 179 \<or> n = 181 \<or> n = 185 \<or> n = 186
         \<or> (188 \<le> n \<and> n \<le> 190) \<or> (192 \<le> n \<and> n \<le> 214)
         \<or> (216 \<le> n \<and> n \<le> 246) \<or> (248 \<le> n \<and> n \<le> 255))"

subsection \<open>\<open>str()\<close>\<close>

definition digit_char :: "nat \<Rightarrow> char" where
  "digit_char d = char_of (48 + d)"

fun str_nat :: "nat \<Rightarrow> string" where
  "str_nat n = (if n < 10 then [digit_char n] else str_nat (n div 10) @ [digit_char (n mod 10)])"

declare str_nat.simps [simp del]

definition str_int :: "int \<Rightarrow> string" where
  "str_int i = (if i < 0 then CHR ''-'' # str_nat (nat (- i)) else str_nat (nat i))"

fun str_float :: "pyfloat \<Rightarrow> string" where
  "str_float (Finite printed _) = printed"
| "str_float PosInf = ''inf''"
| "str_float NegInf = ''-inf''"
| "str_float NaN = ''nan''"

fun py_str :: "pyval \<Rightarrow> string" where
  "py_str PNone = ''None''"
| "py_str (PStr s) = s"
| "py_str (PInt i) = str_int i"
| "py_str (PFloat f) = str_float f"
| "py_str (PSeq printed _) = printed"
| "py_str (PObj printed) = printed"

subsection \<open>\<open>int()\<close>\<close>

text \<open>
  \<open>int(s)\<close> on a string: surrounding whitespace is dropped, one sign is allowed, then
  decimal digits with single underscores between them; anything else is a
  \<open>ValueError\<close>.
\<close>

fun parse_digits :: "nat \<Rightarrow> bool \<Rightarrow> string \<Rightarrow> nat option" where
  "parse_digits acc after_digit [] = (if after_digit then Some acc else None)"
| "parse_digits acc after_digit (c # cs) =
     (if py_isdigit_ascii c then parse_digits (acc * 10 + (of_char c - 48)) True cs
      else if c = CHR ''_'' \<and> after_digit then parse_digits acc False cs
      else None)"

definition int_of_string :: "string \<Rightarrow> exn + int" where
  "int_of_string s =
     (case strip s of
        [] \<Rightarrow> Inl ValueError
      | c # cs \<Rightarrow>
          (case (if c = CHR ''-'' then map_option (\<lambda>n. - int n) (parse_digits 0 False cs)
                 else if c = CHR ''+'' then map_option int (parse_digits 0 False cs)
                 else map_option int (parse_digits 0 False (c # cs))) of
             None \<Rightarrow> Inl ValueError
           | Some i \<Rightarrow> Inr i))"

fun int_of_float :: "pyfloat \<Rightarrow> exn + int" where
  "int_of_float (Finite _ truncated) = Inr truncated"
| "int_of_float PosInf = Inl OverflowError"
| "int_of_float NegInf = Inl OverflowError"
| "int_of_float NaN = Inl ValueError"

fun py_int :: "pyval \<Rightarrow> exn + int" where
  "py_int PNone = Inl TypeError"
| "py_int (PStr s) = int_of_string s"
| "py_int (PInt i) = Inr i"
| "py_int (PFloat f) = int_of_float f"
| "py_int (PSeq _ _) = Inl TypeError"
| "py_int (PObj _) = Inl TypeError"

section \<open>TagExtractor: \<open>get_str\<close> and \<open>get_int\<close> of db_handler.py\<close>

text \<open>
  \<open>get_str\<close> has no \<open>try\<close>: it is \<open>str()\<close>, \<open>strip()\<close> and a guarded \<open>value[0]\<close>.
\<close>

fun get_str :: "pyval \<Rightarrow> string" where
  "get_str PNone = []"
| "get_str (PSeq _ items) = (case items of [] \<Rightarrow> [] | first # _ \<Rightarrow> strip (py_str first))"
| "get_str v = strip (py_str v)"

text \<open>
  \<open>get_int\<close> wraps the conversion in \<open>try ... except (ValueError, TypeError): return 0\<close>;
  any other exception leaves the function.
\<close>

definition get_int_body :: "pyval \<Rightarrow> exn + int" where
  "get_int_body v =
     (case v of
        PNone \<Rightarrow> Inr 0
      | PSeq _ items \<Rightarrow> (case items of [] \<Rightarrow> Inr 0 | first # _ \<Rightarrow> py_int first)
      | _ \<Rightarrow> py_int v)"

definition get_int :: "pyval \<Rightarrow> exn + int" where
  "get_int v =
     (case get_int_body v of
        Inl ValueError \<Rightarrow> Inr 0
      | Inl TypeError \<Rightarrow> Inr 0
      | Inl e \<Rightarrow> Inl e
      | Inr i \<Rightarrow> Inr i)"

section \<open>Paths: the parts of \<open>os.path\<close> the code calls\<close>

text \<open>
  POSIX paths on a filesystem without symbolic links, where \<open>realpath\<close> is the lexical
  normalisation: empty and \<open>.\<close> components vanish, \<open>..\<close> removes the component before
  it and stays at the root. The code calls \<open>realpath\<close> on absolute paths only.
\<close>

definition isabs :: "string \<Rightarrow> bool" where
  "isabs p = (case p of [] \<Rightarrow> False | c # _ \<Rightarrow> c = CHR ''/'')"

definition path_join :: "string \<Rightarrow> string \<Rightarrow> string" where
  "path_join a b =
     (if isabs b then b
      else if a = [] \<or> last a = CHR ''/'' then a @ b
      else a @ ''/'' @ b)"

fun split_sep :: "string \<Rightarrow> string list" where
  "split_sep [] = [[]]"
| "split_sep (c # cs) =
     (if c = CHR ''/'' then [] # split_sep cs
      else (case split_sep cs of [] \<Rightarrow> [[c]] | w # ws \<Rightarrow> (c # w) # ws))"

fun norm_comps :: "string list \<Rightarrow> string list \<Rightarrow> string list" where
  "norm_comps seen [] = rev seen"
| "norm_comps seen (c # cs) =
     (if c = [] \<or> c = ''.'' then norm_comps seen cs
      else if c = ''..'' then norm_comps (case seen of [] \<Rightarrow> [] | _ # up \<Rightarrow> up) cs
      else norm_comps (c # seen) cs)"

definition components :: "string \<Rightarrow> string list" where
  "components p = norm_comps [] (split_sep p)"

fun join_comps :: "string list \<Rightarrow> string" where
  "join_comps [] = []"
| "join_comps [c] = c"
| "join_comps (c # cs) = c @ ''/'' @ join_comps cs"

definition realpath :: "string \<Rightarrow> string" where
  "realpath p = CHR ''/'' # join_comps (components p)"

fun common_prefix :: "string list \<Rightarrow> string list \<Rightarrow> nat" where
  "common_prefix (a # as) (b # bs) = (if a = b then Suc (common_prefix as bs) else 0)"
| "common_prefix _ _ = 0"

definition relpath :: "string \<Rightarrow> string \<Rightarrow> string" where
  "relpath p start =
     (let start_list = components start;
          path_list = components p;
          i = common_prefix start_list path_list;
          rel_list = replicate (length start_list - i) ''..'' @ drop i path_list
      in if rel_list = [] then ''.'' else join_comps rel_list)"

text \<open>\<open>str.startswith\<close>: a comparison of characters, not of path components.\<close>

fun startswith :: "string \<Rightarrow> string \<Rightarrow> bool" where
  "startswith _ [] = True"
| "startswith [] (_ # _) = False"
| "startswith (c # cs) (d # ds) = (c = d \<and> startswith cs ds)"

text \<open>
  Both modules compute the storage root from the directory they are installed in,
  \<open>BASE_DIR\<close>, which is a parameter here.
\<close>

definition RECEIVED_DIR :: "string \<Rightarrow> string" where
  "RECEIVED_DIR base_dir = path_join base_dir ''received_dicom''"

definition RECEIVED_DICOM_ROOT :: "string \<Rightarrow> string" where
  "RECEIVED_DICOM_ROOT base_dir = realpath (path_join base_dir ''received_dicom'')"

section \<open>The record store\<close>

text \<open>
  A decoded dataset is read by element keyword. \<open>ds.get(k, d)\<close> gives the default when
  the element is absent; the attribute access \<open>ds.SOPInstanceUID\<close> raises
  \<open>AttributeError\<close> then.
\<close>

type_synonym dataset = "string \<rightharpoonup> pyval"

definition ds_get :: "dataset \<Rightarrow> string \<Rightarrow> pyval \<Rightarrow> pyval" where
  "ds_get ds k d = (case ds k of None \<Rightarrow> d | Some v \<Rightarrow> v)"

definition ds_attr :: "dataset \<Rightarrow> string \<Rightarrow> exn + pyval" where
  "ds_attr ds k = (case ds k of None \<Rightarrow> Inl AttributeError | Some v \<Rightarrow> Inr v)"

text \<open>
  A table row is its generated primary key and the columns an \<open>INSERT\<close> names, in
  the statement's order. Which columns carry a \<open>UNIQUE\<close> constraint belongs to the
  schema, which the Python code does not contain: it is a field of the table.
\<close>

datatype sqlval = SText string | SInt int

record row =
  prkey :: nat
  cols :: "(string \<times> sqlval) list"

record table =
  rows :: "row list"
  next_prkey :: nat
  unique_on :: "string list"

record store =
  patient_tbl :: table
  study_tbl :: table
  series_tbl :: table
  image_tbl :: table

text \<open>
  \<open>SELECT ... WHERE col = %s\<close> followed by \<open>fetchone()\<close>: the first matching row in
  insertion order, or \<open>None\<close>.
\<close>

definition select_where :: "string \<Rightarrow> sqlval \<Rightarrow> table \<Rightarrow> row option" where
  "select_where col v t = find (\<lambda>r. map_of (cols r) col = Some v) (rows t)"

definition violates :: "table \<Rightarrow> (string \<times> sqlval) list \<Rightarrow> bool" where
  "violates t cs =
     list_ex (\<lambda>c. list_ex (\<lambda>r. map_of cs c \<noteq> None \<and> map_of (cols r) c = map_of cs c) (rows t))
       (unique_on t)"

text \<open>\<open>INSERT ... RETURNING\<close> the generated key.\<close>

definition insert_returning :: "(string \<times> sqlval) list \<Rightarrow> table \<Rightarrow> exn + nat \<times> table" where
  "insert_returning cs t =
     (if violates t cs then Inl UniqueViolation
      else Inr (next_prkey t,
                t\<lparr>rows := rows t @ [\<lparr>prkey = next_prkey t, cols = cs\<rparr>],
                  next_prkey := Suc (next_prkey t)\<rparr>))"

text \<open>
  The process state: the record store behind the global connection, the files under
  the storage root (keyed by canonical path), and what was logged. The root logger is
  configured at level \<open>INFO\<close>, so \<open>logging.debug\<close> leaves no trace. A message that ends
  with the text of an exception is given up to that text.
\<close>

datatype level = DEBUG | INFO | WARNING | ERROR

datatype stored_file = NotDicom | Dicom dataset

record state =
  db :: store
  files :: "string \<rightharpoonup> stored_file"
  log :: "(level \<times> string) list"

definition logging :: "level \<Rightarrow> string \<Rightarrow> state \<Rightarrow> state" where
  "logging lvl msg st = (if lvl = DEBUG then st else st\<lparr>log := log st @ [(lvl, msg)]\<rparr>)"

section \<open>CatalogResolver: db_handler.py\<close>

text \<open>
  The connection runs with \<open>autocommit\<close>, so each statement is its own transaction and
  other connections may commit between a resolver's \<open>SELECT\<close> and its \<open>INSERT\<close>. The
  parameter \<open>between\<close> is what they commit in that gap; it is the identity when the
  ingestion runs alone.

  The three resolvers compute their natural key the same way, with their own element
  keyword and sentinel prefix.
\<close>

definition natural_key :: "dataset \<Rightarrow> string \<Rightarrow> string \<Rightarrow> state \<Rightarrow> exn + string \<times> state" where
  "natural_key ds keyword sentinel st =
     (if get_str (ds_get ds keyword PNone) \<noteq> [] then Inr (get_str (ds_get ds keyword PNone), st)
      else (case ds_attr ds ''SOPInstanceUID'' of
              Inl e \<Rightarrow> Inl e
            | Inr uid \<Rightarrow>
                Inr (sentinel @ py_str uid,
                     logging WARNING
                       (keyword @ '' kosong, menggunakan fallback: '' @ sentinel @ py_str uid) st)))"

definition tag :: "dataset \<Rightarrow> string \<Rightarrow> sqlval" where
  "tag ds k = SText (get_str (ds_get ds k PNone))"

definition patient_columns :: "dataset \<Rightarrow> string \<Rightarrow> pyval \<Rightarrow> (string \<times> sqlval) list" where
  "patient_columns ds patient_id file_path_relative =
     [(''patient_id'', SText patient_id),
      (''patient_name'', tag ds ''PatientName''),
      (''patient_birthdate'', tag ds ''PatientBirthDate''),
      (''patient_sex'', tag ds ''PatientSex''),
      (''character_set'', tag ds ''SpecificCharacterSet''),
      (''patient_path'', SText (get_str file_path_relative))]"

definition get_or_create_patient ::
  "dataset \<Rightarrow> (store \<Rightarrow> store) \<Rightarrow> pyval \<Rightarrow> state \<Rightarrow> (exn + nat) \<times> state" where
  "get_or_create_patient ds between file_path_relative st =
     (case natural_key ds ''PatientID'' ''UNKNOWN_PATIENT_'' st of
        Inl e \<Rightarrow> (Inl e, st)
      | Inr (patient_id, st1) \<Rightarrow>
          (case select_where ''patient_id'' (SText patient_id) (patient_tbl (db st1)) of
             Some result \<Rightarrow>
               (Inr (prkey result),
                logging DEBUG
                  (''Pasien dengan PatientID '' @ [CHR 0x27] @ patient_id @ [CHR 0x27]
                     @ '' sudah ada, menggunakan prkey: '' @ str_nat (prkey result)) st1)
           | None \<Rightarrow>
               (let st2 = (logging DEBUG (''Membuat pasien baru dengan PatientID: '' @ patient_id) st1)
                            \<lparr>db := between (db st1)\<rparr>
                in case insert_returning (patient_columns ds patient_id file_path_relative)
                          (patient_tbl (db st2)) of
                     Inl e \<Rightarrow> (Inl e, st2)
                   | Inr (k, t) \<Rightarrow> (Inr k, st2\<lparr>db := (db st2)\<lparr>patient_tbl := t\<rparr>\<rparr>))))"

text \<open>
  The accession number of a new study row: the element's value, or the study's natural
  key (which may itself be the synthesized one) with a warning.
\<close>

definition accession_fallback :: "dataset \<Rightarrow> string \<Rightarrow> state \<Rightarrow> string \<times> state" where
  "accession_fallback ds study_instance_uid st =
     (if get_str (ds_get ds ''AccessionNumber'' PNone) \<noteq> []
      then (get_str (ds_get ds ''AccessionNumber'' PNone), st)
      else (study_instance_uid,
            logging WARNING
              (''AccessionNumber kosong, menggunakan StudyInstanceUID '' @ [CHR 0x27] @ study_instance_uid
                 @ [CHR 0x27] @ '' sebagai fallback.'') st))"

definition study_columns ::
  "dataset \<Rightarrow> string \<Rightarrow> string \<Rightarrow> nat \<Rightarrow> pyval \<Rightarrow> (string \<times> sqlval) list" where
  "study_columns ds study_instance_uid accession_number patient_prkey file_path_relative =
     [(''study_instance_uid'', SText study_instance_uid),
      (''study_id'', tag ds ''StudyID''),
      (''study_date'', tag ds ''StudyDate''),
      (''study_time'', tag ds ''StudyTime''),
      (''study_description'', tag ds ''StudyDescription''),
      (''accession_number'', SText accession_number),
      (''refer_physician'', tag ds ''ReferringPhysicianName''),
      (''modalities_in_study'', tag ds ''ModalitiesInStudy''),
      (''series_in_study'', tag ds ''NumberOfStudyRelatedSeries''),
      (''images_in_study'', tag ds ''NumberOfStudyRelatedInstances''),
      (''station_name'', tag ds ''StationName''),
      (''institutional_department_name'', tag ds ''InstitutionalDepartmentName''),
      (''patient_age'', tag ds ''PatientAge''),
      (''patient_weight'', tag ds ''PatientWeight''),
      (''character_set'', tag ds ''SpecificCharacterSet''),
      (''study_path'', SText (get_str file_path_relative)),
      (''patient_prkey'', SInt (int patient_prkey)),
      (''institution_name'', tag ds ''InstitutionName''),
      (''frames_in_study'', tag ds ''NumberOfFrames''),
      (''study_comments'', tag ds ''StudyComments''),
      (''study_status'', SInt 0),
      (''study_token'', SText ''none'')]"

definition get_or_create_study ::
  "dataset \<Rightarrow> (store \<Rightarrow> store) \<Rightarrow> nat \<Rightarrow> pyval \<Rightarrow> state \<Rightarrow> (exn + nat) \<times> state" where
  "get_or_create_study ds between patient_prkey file_path_relative st =
     (case natural_key ds ''StudyInstanceUID'' ''UNKNOWN_STUDY_'' st of
        Inl e \<Rightarrow> (Inl e, st)
      | Inr (study_instance_uid, st1) \<Rightarrow>
          (case select_where ''study_instance_uid'' (SText study_instance_uid)
                  (study_tbl (db st1)) of
             Some result \<Rightarrow>
               (Inr (prkey result),
                logging DEBUG
                  (''Studi dengan StudyInstanceUID '' @ [CHR 0x27] @ study_instance_uid @ [CHR 0x27]
                     @ '' sudah ada, menggunakan prkey: '' @ str_nat (prkey result)) st1)
           | None \<Rightarrow>
               (case accession_fallback ds study_instance_uid
                       (logging DEBUG
                          (''Membuat studi baru dengan StudyInstanceUID: '' @ study_instance_uid)
                          st1) of
                  (accession_number, st2) \<Rightarrow>
                    (let st3 = st2\<lparr>db := between (db st2)\<rparr>
                     in case insert_returning
                               (study_columns ds study_instance_uid accession_number patient_prkey
                                  file_path_relative)
                               (study_tbl (db st3)) of
                          Inl e \<Rightarrow> (Inl e, st3)
                        | Inr (k, t) \<Rightarrow> (Inr k, st3\<lparr>db := (db st3)\<lparr>study_tbl := t\<rparr>\<rparr>)))))"

definition series_columns ::
  "dataset \<Rightarrow> string \<Rightarrow> nat \<Rightarrow> pyval \<Rightarrow> (string \<times> sqlval) list" where
  "series_columns ds series_instance_uid study_prkey file_path_relative =
     [(''series_instance_uid'', SText series_instance_uid),
      (''series_number'', tag ds ''SeriesNumber''),
      (''series_date'', tag ds ''SeriesDate''),
      (''series_time'', tag ds ''SeriesTime''),
      (''series_description'', tag ds ''SeriesDescription''),
      (''modality'', tag ds ''Modality''),
      (''patient_position'', tag ds ''PatientPosition''),
      (''contrast_bolus_agent'', tag ds ''ContrastBolusAgent''),
      (''manufacturer'', tag ds ''Manufacturer''),
      (''model_name'', tag ds ''ManufacturerModelName''),
      (''body_part_examined'', tag ds ''BodyPartExamined''),
      (''protocol_name'', tag ds ''ProtocolName''),
      (''images_in_series'', tag ds ''NumberOfSeriesRelatedInstances''),
      (''frame_of_reference_uid'', tag ds ''FrameOfReferenceUID''),
      (''localizer_instance_uid'', tag ds ''SOPInstanceUID''),
      (''user_comments'', SText ''none''),
      (''series_priority'', SInt 0),
      (''series_rate'', SInt 0),
      (''series_review_date'', SText ''none''),
      (''series_review_time'', SText ''none''),
      (''series_insertion_date'', SText ''none''),
      (''character_set'', tag ds ''SpecificCharacterSet''),
      (''series_path'', SText (get_str file_path_relative)),
      (''study_instance_uid'', tag ds ''StudyInstanceUID''),
      (''study_prkey'', SInt (int study_prkey)),
      (''frames_in_series'', tag ds ''NumberOfFrames'')]"

definition get_or_create_series ::
  "dataset \<Rightarrow> (store \<Rightarrow> store) \<Rightarrow> nat \<Rightarrow> pyval \<Rightarrow> state \<Rightarrow> (exn + nat) \<times> state" where
  "get_or_create_series ds between study_prkey file_path_relative st =
     (case natural_key ds ''SeriesInstanceUID'' ''UNKNOWN_SERIES_'' st of
        Inl e \<Rightarrow> (Inl e, st)
      | Inr (series_instance_uid, st1) \<Rightarrow>
          (case select_where ''series_instance_uid'' (SText series_instance_uid)
                  (series_tbl (db st1)) of
             Some result \<Rightarrow>
               (Inr (prkey result),
                logging DEBUG
                  (''Series dengan SeriesInstanceUID '' @ [CHR 0x27] @ series_instance_uid @ [CHR 0x27]
                     @ '' sudah ada, menggunakan prkey: '' @ str_nat (prkey result)) st1)
           | None \<Rightarrow>
               (let st2 = (logging DEBUG
                             (''Membuat series baru dengan SeriesInstanceUID: ''
                                @ series_instance_uid) st1)
                            \<lparr>db := between (db st1)\<rparr>
                in case insert_returning
                          (series_columns ds series_instance_uid study_prkey file_path_relative)
                          (series_tbl (db st2)) of
                     Inl e \<Rightarrow> (Inl e, st2)
                   | Inr (k, t) \<Rightarrow> (Inr k, st2\<lparr>db := (db st2)\<lparr>series_tbl := t\<rparr>\<rparr>))))"

text \<open>
  \<open>save_image_metadata\<close> returns \<open>None\<close> on each of its three ways out: the empty
  identifier (an error is logged, nothing is raised), the row that is already there,
  and the insert. The two integer columns after \<open>bits_allocated\<close> are converted in the
  source's order, so the first conversion that raises decides.
\<close>

definition image_columns ::
  "dataset \<Rightarrow> string \<Rightarrow> nat \<Rightarrow> exn + (string \<times> sqlval) list" where
  "image_columns ds sop_instance_uid series_prkey =
     (case get_int (ds_get ds ''BitsAllocated'' PNone) of
        Inl e \<Rightarrow> Inl e
      | Inr bits_allocated \<Rightarrow>
     (case get_int (ds_get ds ''Rows'' PNone) of
        Inl e \<Rightarrow> Inl e
      | Inr n_rows \<Rightarrow>
     (case get_int (ds_get ds ''Columns'' PNone) of
        Inl e \<Rightarrow> Inl e
      | Inr n_columns \<Rightarrow>
          Inr [(''sop_instance_uid'', SText sop_instance_uid),
               (''sop_class_uid'', tag ds ''SOPClassUID''),
               (''image_type'', tag ds ''ImageType''),
               (''image_number'', tag ds ''InstanceNumber''),
               (''image_date'', tag ds ''ContentDate''),
               (''image_time'', tag ds ''ContentTime''),
               (''acquisition_date'', tag ds ''AcquisitionDate''),
               (''acquisition_time'', tag ds ''AcquisitionTime''),
               (''acquisition_number'', tag ds ''AcquisitionNumber''),
               (''number_of_frames'', tag ds ''NumberOfFrames''),
               (''samples_per_pixel'', tag ds ''SamplesPerPixel''),
               (''photometric_interpretation'', tag ds ''PhotometricInterpretation''),
               (''bits_allocated'', SInt bits_allocated),
               (''rows'', SInt n_rows),
               (''columns'', SInt n_columns),
               (''image_path_name'', tag ds ''Path''),
               (''patient_id'', tag ds ''PatientID''),
               (''series_prkey'', SInt (int series_prkey))])))"

definition save_image_metadata ::
  "dataset \<Rightarrow> (store \<Rightarrow> store) \<Rightarrow> nat \<Rightarrow> nat \<Rightarrow> state \<Rightarrow> (exn + unit) \<times> state" where
  "save_image_metadata ds between patient_prkey series_prkey st =
     (let sop_instance_uid = get_str (ds_get ds ''SOPInstanceUID'' PNone)
      in if sop_instance_uid = []
         then (Inr (),
               logging ERROR ''SOPInstanceUID kosong, tidak bisa menyimpan image metadata.'' st)
         else
           (case select_where ''sop_instance_uid'' (SText sop_instance_uid) (image_tbl (db st)) of
              Some result \<Rightarrow>
                (Inr (),
                 logging INFO
                   (''Image dengan SOPInstanceUID '' @ [CHR 0x27] @ sop_instance_uid @ [CHR 0x27]
                      @ '' sudah ada, tidak ada penyisipan baru.'') st)
            | None \<Rightarrow>
                (let st1 = logging DEBUG
                             (''Membuat image baru dengan SOPInstanceUID: '' @ sop_instance_uid) st
                 in case image_columns ds sop_instance_uid series_prkey of
                      Inl e \<Rightarrow> (Inl e, st1)
                    | Inr cs \<Rightarrow>
                        (let st2 = st1\<lparr>db := between (db st1)\<rparr>
                         in case insert_returning cs (image_tbl (db st2)) of
                              Inl e \<Rightarrow> (Inl e, st2)
                            | Inr (k, t) \<Rightarrow> (Inr (), st2\<lparr>db := (db st2)\<lparr>image_tbl := t\<rparr>\<rparr>)))))"

text \<open>
  \<open>save_metadata\<close> is the ingestion entry point. Its \<open>except\<close> clauses log and re-raise.
  Its \<open>finally\<close> clause reads the local \<open>cur\<close>, which is bound only after the file was
  found and decoded: on the two earlier failures the \<open>finally\<close> clause itself raises
  \<open>UnboundLocalError\<close>, and that is the exception the caller sees.
\<close>

definition save_metadata ::
  "string \<Rightarrow> (store \<Rightarrow> store) \<Rightarrow> string \<Rightarrow> state \<Rightarrow> (exn + unit) \<times> state" where
  "save_metadata base_dir between path_relative_to_received_dir st =
     (let filepath_absolute = path_join (RECEIVED_DICOM_ROOT base_dir) path_relative_to_received_dir;
          failed = logging ERROR
                     (''Terjadi kesalahan saat menyimpan metadata untuk ''
                        @ [CHR 0x27] @ path_relative_to_received_dir @ [CHR 0x27] @ '': '')
      in case files st (realpath filepath_absolute) of
           None \<Rightarrow>
             (Inl UnboundLocalError,
              failed (logging ERROR
                        (''File DICOM tidak ditemukan di jalur absolut: '' @ filepath_absolute) st))
         | Some NotDicom \<Rightarrow>
             (Inl UnboundLocalError,
              logging ERROR
                (''File DICOM tidak valid '' @ [CHR 0x27] @ path_relative_to_received_dir
                   @ [CHR 0x27] @ '': '') st)
         | Some (Dicom decoded) \<Rightarrow>
             (let ds = decoded(''Path'' \<mapsto> PStr path_relative_to_received_dir);
                  hint = PStr path_relative_to_received_dir
              in case get_or_create_patient ds between hint st of
                   (Inl e, st1) \<Rightarrow> (Inl e, failed st1)
                 | (Inr patient_prkey, st1) \<Rightarrow>
              (case get_or_create_study ds between patient_prkey hint st1 of
                   (Inl e, st2) \<Rightarrow> (Inl e, failed st2)
                 | (Inr study_prkey, st2) \<Rightarrow>
              (case get_or_create_series ds between study_prkey hint st2 of
                   (Inl e, st3) \<Rightarrow> (Inl e, failed st3)
                 | (Inr series_prkey, st3) \<Rightarrow>
              (case save_image_metadata ds between patient_prkey series_prkey st3 of
                   (Inl e, st4) \<Rightarrow> (Inl e, failed st4)
                 | (Inr _, st4) \<Rightarrow>
                     (Inr (),
                      logging INFO
                        (''Metadata dari '' @ [CHR 0x27] @ path_relative_to_received_dir
                           @ [CHR 0x27] @ '' berhasil disimpan ke database.'') st4))))))"

section \<open>StorageLayout: \<open>handle_store\<close> of dicom_server.py\<close>

text \<open>
  The directory name. The accession number is read with the default
  \<open>UNKNOWN_ACCESSION\<close> for a dataset that has no such element; the identifier that
  replaces an empty sanitized name is \<open>str(ds.SOPInstanceUID)\<close>, as it is.
\<close>

definition accession_number_safe :: "dataset \<Rightarrow> string" where
  "accession_number_safe ds =
     strip (filter (\<lambda>c. py_isalnum c \<or> c = CHR ''-'' \<or> c = CHR ''_'')
              (get_str (ds_get ds ''AccessionNumber'' (PStr ''UNKNOWN_ACCESSION''))))"

definition study_dir_name :: "dataset \<Rightarrow> exn + string" where
  "study_dir_name ds =
     (if accession_number_safe ds \<noteq> [] then Inr (accession_number_safe ds)
      else (case ds_attr ds ''SOPInstanceUID'' of
              Inl e \<Rightarrow> Inl e
            | Inr uid \<Rightarrow> Inr (py_str uid)))"

text \<open>
  The C-STORE handler: the status is \<open>0x0000\<close> on success, \<open>0xC001\<close> when the
  cataloging raised, \<open>0xC210\<close> when anything before it did.
\<close>

definition handle_store ::
  "string \<Rightarrow> (store \<Rightarrow> store) \<Rightarrow> dataset \<Rightarrow> state \<Rightarrow> 16 word \<times> state" where
  "handle_store base_dir between ds st =
     (let unhandled = logging ERROR
                        ''Terjadi exception tak tertangani saat memproses C-STORE request: ''
      in case study_dir_name ds of
           Inl e \<Rightarrow> (0xC210, unhandled st)
         | Inr dir_name \<Rightarrow>
        (case ds_attr ds ''SOPInstanceUID'' of
           Inl e \<Rightarrow> (0xC210, unhandled st)
         | Inr uid \<Rightarrow>
             (let st1 = (if accession_number_safe ds \<noteq> [] then st
                         else logging WARNING
                                (''AccessionNumber kosong atau tidak valid, menggunakan ''
                                   @ ''SOPInstanceUID sebagai nama folder: '' @ dir_name) st);
                  study_dir = path_join (RECEIVED_DIR base_dir) dir_name;
                  filepath_absolute = path_join study_dir (py_str uid @ ''.dcm'');
                  st2 = logging INFO
                          (''Berhasil menerima dan menyimpan file DICOM: '' @ filepath_absolute)
                          (st1\<lparr>files := (files st1)(realpath filepath_absolute \<mapsto> Dicom ds)\<rparr>);
                  filepath_relative_for_db = relpath filepath_absolute (RECEIVED_DIR base_dir)
              in case save_metadata base_dir between filepath_relative_for_db st2 of
                   (Inl e, st3) \<Rightarrow>
                     (0xC001,
                      logging ERROR
                        (''Gagal menyimpan metadata DICOM ke database untuk ''
                           @ last (split_sep filepath_absolute) @ '': '') st3)
                 | (Inr _, st3) \<Rightarrow>
                     (0x0000,
                      logging INFO
                        (''Metadata untuk '' @ last (split_sep filepath_absolute)
                           @ '' berhasil disimpan ke database menggunakan jalur relatif: ''
                           @ filepath_relative_for_db) st3))))"

section \<open>PathResolver and PixelPipeline: dicom_viewer.py\<close>

definition resolve_dicom_path_for_viewer :: "string \<Rightarrow> string \<Rightarrow> string" where
  "resolve_dicom_path_for_viewer base_dir db_path =
     (if isabs db_path then realpath db_path
      else realpath (path_join (RECEIVED_DICOM_ROOT base_dir) db_path))"

text \<open>
  Sample arrays are a shape and the samples in row-major order. The arithmetic of the
  pipeline is carried out on rationals: exact where numpy rounds to a float, and without
  the infinities and NaN.
\<close>

record 'a ndarray =
  shape :: "nat list"
  samples :: "'a list"

text \<open>
  What the viewer reads from a decoded file. A window element is absent, a number, or a
  \<open>MultiValue\<close> of numbers.
\<close>

datatype numval = NumNone | Num rat | NumMulti "rat list"

record pixel_dataset =
  PixelData :: "rat ndarray option"
  NumberOfFrames :: int
  RescaleSlope :: "rat option"
  RescaleIntercept :: "rat option"
  WindowLevel :: numval
  WindowWidth :: numval
  PhotometricInterpretation :: string

text \<open>
  A query parameter \<open>wl\<close> or \<open>ww\<close>: absent or empty (both falsy), a text that
  \<open>float()\<close> converts, or one on which it raises \<open>ValueError\<close>.
\<close>

datatype query_arg = Missing | Number rat | Malformed

record 'img response =
  body :: 'img
  x_current_wl :: rat
  x_current_ww :: rat
  x_current_enhance :: string

definition first_frame :: "rat ndarray \<Rightarrow> exn + rat ndarray" where
  "first_frame a =
     (case shape a of
        [] \<Rightarrow> Inl IndexError
      | n # frame_shape \<Rightarrow>
          if n = 0 then Inl IndexError
          else Inr \<lparr>shape = frame_shape, samples = take (prod_list frame_shape) (samples a)\<rparr>)"

definition select_frame :: "pixel_dataset \<Rightarrow> rat ndarray \<Rightarrow> exn + rat ndarray" where
  "select_frame ds pixel_array_raw =
     (if NumberOfFrames ds > 1 \<and> length (shape pixel_array_raw) > 2
      then first_frame pixel_array_raw
      else Inr pixel_array_raw)"

definition rescale :: "pixel_dataset \<Rightarrow> rat ndarray \<Rightarrow> rat ndarray" where
  "rescale ds a =
     (case (RescaleSlope ds, RescaleIntercept ds) of
        (Some rescale_slope, Some rescale_intercept) \<Rightarrow>
          a\<lparr>samples := map (\<lambda>x. x * rescale_slope + rescale_intercept) (samples a)\<rparr>
      | _ \<Rightarrow> a)"

definition first_value :: "numval \<Rightarrow> exn + rat option" where
  "first_value v =
     (case v of
        NumNone \<Rightarrow> Inr None
      | Num x \<Rightarrow> Inr (Some x)
      | NumMulti [] \<Rightarrow> Inl IndexError
      | NumMulti (x # _) \<Rightarrow> Inr (Some x))"

definition override :: "query_arg \<Rightarrow> rat option \<Rightarrow> exn + rat option" where
  "override arg dflt =
     (case arg of
        Missing \<Rightarrow> Inr dflt
      | Number x \<Rightarrow> Inr (Some x)
      | Malformed \<Rightarrow> Inl ValueError)"

fun np_min :: "rat list \<Rightarrow> exn + rat" where
  "np_min [] = Inl ValueError"
| "np_min (x # xs) = Inr (fold min xs x)"

fun np_max :: "rat list \<Rightarrow> exn + rat" where
  "np_max [] = Inl ValueError"
| "np_max (x # xs) = Inr (fold max xs x)"

text \<open>
  Window determination: when either value is still \<open>None\<close>, both are computed from the
  array.
\<close>

definition determine_window :: "rat option \<Rightarrow> rat option \<Rightarrow> rat list \<Rightarrow> exn + rat \<times> rat" where
  "determine_window wl ww pixels =
     (case (wl, ww) of
        (Some l, Some w) \<Rightarrow> Inr (l, w)
      | _ \<Rightarrow>
          (case np_min pixels of
             Inl e \<Rightarrow> Inl e
           | Inr min_pixel \<Rightarrow>
               (case np_max pixels of
                  Inl e \<Rightarrow> Inl e
                | Inr max_pixel \<Rightarrow>
                    Inr ((min_pixel + max_pixel) / 2,
                         if max_pixel - min_pixel > 0 then max_pixel - min_pixel else 1))))"

definition np_clip :: "rat \<Rightarrow> rat \<Rightarrow> rat \<Rightarrow> rat" where
  "np_clip x lo hi = min (max x lo) hi"

definition apply_windowing :: "rat \<Rightarrow> rat \<Rightarrow> rat \<Rightarrow> rat" where
  "apply_windowing wl ww x =
     (if ww > 0
      then (let min_val = wl - ww / 2;
                max_val = wl + ww / 2
            in ((np_clip x min_val max_val - min_val) / (max_val - min_val)) * 255)
      else (if x \<ge> wl then 255 else 0))"

text \<open>\<open>np.clip(..., 0, 255).astype(np.uint8)\<close>: the cast drops the fraction.\<close>

definition as_uint8 :: "rat \<Rightarrow> 8 word" where
  "as_uint8 y = (let c = np_clip y 0 255 in word_of_int (if c \<ge> 0 then \<lfloor>c\<rfloor> else \<lceil>c\<rceil>))"

definition window_pixel :: "rat \<Rightarrow> rat \<Rightarrow> rat \<Rightarrow> 8 word" where
  "window_pixel wl ww x = as_uint8 (apply_windowing wl ww x)"

text \<open>
  The body of the \<open>try\<close> block of \<open>image_data\<close>, first up to the windowed 8-bit array
  and the effective window. Enhancement, photometric dispatch and PNG encoding read that
  array, the dataset and the enhancement mode, and nothing of the window: they are the
  parameter \<open>later_stages\<close> of \<open>render\<close>.
\<close>

definition window_stage ::
  "pixel_dataset \<Rightarrow> query_arg \<Rightarrow> query_arg \<Rightarrow> exn + rat \<times> rat \<times> 8 word ndarray" where
  "window_stage ds wl_arg ww_arg =
     (case PixelData ds of
        None \<Rightarrow> Inl (HTTPException 400)
      | Some pixel_array_raw \<Rightarrow>
     (case select_frame ds pixel_array_raw of
        Inl e \<Rightarrow> Inl e
      | Inr frame \<Rightarrow>
     (let pixel_array_orig = rescale ds frame
      in case first_value (WindowLevel ds) of
        Inl e \<Rightarrow> Inl e
      | Inr default_wl \<Rightarrow>
     (case first_value (WindowWidth ds) of
        Inl e \<Rightarrow> Inl e
      | Inr default_ww \<Rightarrow>
     (case override wl_arg default_wl of
        Inl e \<Rightarrow> Inl e
      | Inr wl0 \<Rightarrow>
     (case override ww_arg default_ww of
        Inl e \<Rightarrow> Inl e
      | Inr ww0 \<Rightarrow>
     (case determine_window wl0 ww0 (samples pixel_array_orig) of
        Inl e \<Rightarrow> Inl e
      | Inr (wl, ww) \<Rightarrow>
          Inr (wl, ww,
               \<lparr>shape = shape pixel_array_orig,
                samples = map (window_pixel wl ww) (samples pixel_array_orig)\<rparr>))))))))"

definition render ::
  "(pixel_dataset \<Rightarrow> string \<Rightarrow> 8 word ndarray \<Rightarrow> exn + 'img) \<Rightarrow> pixel_dataset \<Rightarrow>
   query_arg \<Rightarrow> query_arg \<Rightarrow> string \<Rightarrow> exn + 'img response" where
  "render later_stages ds wl_arg ww_arg enhance_mode =
     (case window_stage ds wl_arg ww_arg of
        Inl e \<Rightarrow> Inl e
      | Inr (wl, ww, pixel_array_processed) \<Rightarrow>
          (case later_stages ds enhance_mode pixel_array_processed of
             Inl e \<Rightarrow> Inl e
           | Inr img \<Rightarrow>
               Inr \<lparr>body = img, x_current_wl = wl, x_current_ww = ww,
                    x_current_enhance = enhance_mode\<rparr>))"

text \<open>
  The route: the path check and the existence check sit before the \<open>try\<close> block and
  answer 403 and 404; every exception inside the block, the block's own \<open>abort(400)\<close>
  included, is caught by \<open>except Exception\<close> and answered with 500.
\<close>

definition image_data ::
  "string \<Rightarrow> (pixel_dataset \<Rightarrow> string \<Rightarrow> 8 word ndarray \<Rightarrow> exn + 'img) \<Rightarrow>
   (string \<rightharpoonup> pixel_dataset) \<Rightarrow> string \<Rightarrow> query_arg \<Rightarrow> query_arg \<Rightarrow> string \<Rightarrow>
   exn + 'img response" where
  "image_data base_dir later_stages stored filename_from_db wl_arg ww_arg enhance_mode =
     (let full_dicom_path = resolve_dicom_path_for_viewer base_dir filename_from_db
      in if \<not> startswith full_dicom_path (RECEIVED_DICOM_ROOT base_dir)
         then Inl (HTTPException 403)
         else (case stored full_dicom_path of
                 None \<Rightarrow> Inl (HTTPException 404)
               | Some ds \<Rightarrow>
                   (case render later_stages ds wl_arg ww_arg enhance_mode of
                      Inl e \<Rightarrow> Inl (HTTPException 500)
                    | Inr r \<Rightarrow> Inr r)))"

text \<open>
  \<open>image_metadata\<close>: the dataset's window, or the one computed from the first frame;
  \<open>ds.pixel_array\<close> is read first and raises on a file without pixel data.
\<close>

definition default_window :: "pixel_dataset \<Rightarrow> exn + rat \<times> rat" where
  "default_window ds =
     (case PixelData ds of
        None \<Rightarrow> Inl AttributeError
      | Some pixel_array_raw \<Rightarrow>
     (case select_frame ds pixel_array_raw of
        Inl e \<Rightarrow> Inl e
      | Inr pixel_array_for_minmax \<Rightarrow>
     (case first_value (WindowLevel ds) of
        Inl e \<Rightarrow> Inl e
      | Inr default_wl \<Rightarrow>
     (case first_value (WindowWidth ds) of
        Inl e \<Rightarrow> Inl e
      | Inr default_ww \<Rightarrow>
          determine_window default_wl default_ww
            (samples (rescale ds pixel_array_for_minmax))))))"

definition image_metadata ::
  "string \<Rightarrow> (string \<rightharpoonup> pixel_dataset) \<Rightarrow> string \<Rightarrow> exn + rat \<times> rat \<times> string" where
  "image_metadata base_dir stored filename_from_db =
     (let full_dicom_path = resolve_dicom_path_for_viewer base_dir filename_from_db
      in if \<not> startswith full_dicom_path (RECEIVED_DICOM_ROOT base_dir)
         then Inl (HTTPException 403)
         else (case stored full_dicom_path of
                 None \<Rightarrow> Inl (HTTPException 404)
               | Some ds \<Rightarrow>
                   (case default_window ds of
                      Inl e \<Rightarrow> Inl (HTTPException 500)
                    | Inr (default_wl, default_ww) \<Rightarrow>
                        Inr (default_wl, default_ww, filename_from_db))))"

section \<open>The specification's wording, and example inputs\<close>

text \<open>
  The directory rule as the specification words it: sanitize the accession number as the
  tag extractor returns it, and fall back to the SOP instance identifier when nothing is
  left.
\<close>

definition directoryFor_spec :: "dataset \<Rightarrow> exn + string" where
  "directoryFor_spec ds =
     (let sanitized = filter (\<lambda>c. py_isalnum c \<or> c = CHR ''-'' \<or> c = CHR ''_'')
                        (get_str (ds_get ds ''AccessionNumber'' PNone))
      in if sanitized = []
         then (case ds_attr ds ''SOPInstanceUID'' of
                 Inl e \<Rightarrow> Inl e
               | Inr uid \<Rightarrow> Inr (py_str uid))
         else Inr sanitized)"

text \<open>The 2x2 array of the specification's windowing example, with no window elements.\<close>

definition example_pixels :: pixel_dataset where
  "example_pixels =
     \<lparr>PixelData = Some \<lparr>shape = [2, 2], samples = [0, 100, 200, 255]\<rparr>,
      NumberOfFrames = 1, RescaleSlope = None, RescaleIntercept = None,
      WindowLevel = NumNone, WindowWidth = NumNone,
      PhotometricInterpretation = ''MONOCHROME2''\<rparr>"



text \<open>
  An empty catalog whose tables are unique on their natural keys, a dataset with all four
  identifiers, and the state in which its file has been written under the storage root
  of an installation in \<open>/srv/app\<close>.
\<close>

definition example_store :: store where
  "example_store =
     \<lparr>patient_tbl = \<lparr>rows = [], next_prkey = 1, unique_on = [''patient_id'']\<rparr>,
      study_tbl = \<lparr>rows = [], next_prkey = 1, unique_on = [''study_instance_uid'']\<rparr>,
      series_tbl = \<lparr>rows = [], next_prkey = 1, unique_on = [''series_instance_uid'']\<rparr>,
      image_tbl = \<lparr>rows = [], next_prkey = 1, unique_on = [''sop_instance_uid'']\<rparr>\<rparr>"






text \<open>
  A dataset that carries neither a patient identifier nor a study identifier nor an
  accession number, stored where the C-STORE handler puts it.
\<close>

definition example_anonymous :: dataset where
  "example_anonymous =
     map_of [(''SOPInstanceUID'', PStr ''1.2.3''),
             (''SeriesInstanceUID'', PStr ''1.2.1'')]"

definition example_anonymous_state :: state where
  "example_anonymous_state =
     \<lparr>db = example_store,
      files = [''/srv/app/received_dicom/UNKNOWN_ACCESSION/1.2.3.dcm'' \<mapsto> Dicom example_anonymous],
      log = []\<rparr>"

section \<open>TagExtractor: what the extractors return\<close>

lemma get_str_forms:
  "get_str PNone = []"
  "get_str (PSeq p []) = []"
  "get_str (PSeq p (x # xs)) = strip (py_str x)"
  "get_str (PStr s) = strip s"
  "get_str (PInt i) = strip (str_int i)"
  "get_str (PFloat f) = strip (str_float f)"
  "get_str (PObj printed) = strip printed"
  by simp_all

lemma int_of_string_raises: "int_of_string s = Inl e \<Longrightarrow> e = ValueError"
  by (auto simp: int_of_string_def split: list.splits option.splits if_splits)

lemma int_of_float_raises: "int_of_float f = Inl e \<Longrightarrow> e = ValueError \<or> e = OverflowError"
  by (cases f) auto

lemma py_int_raises: "py_int v = Inl e \<Longrightarrow> e = ValueError \<or> e = TypeError \<or> e = OverflowError"
  by (cases v) (auto dest: int_of_string_raises int_of_float_raises)

lemma get_int_body_raises:
  "get_int_body v = Inl e \<Longrightarrow> e = ValueError \<or> e = TypeError \<or> e = OverflowError"
  by (cases v)
    (auto simp: get_int_body_def split: list.splits
          dest: py_int_raises int_of_string_raises int_of_float_raises)

lemma get_int_sentinel:
  "get_int PNone = Inr 0"
  "get_int (PSeq p []) = Inr 0"
  "get_int (PStr s) = (case int_of_string s of Inl _ \<Rightarrow> Inr 0 | Inr i \<Rightarrow> Inr i)"
  "py_int x = Inr i \<Longrightarrow> get_int (PSeq p (x # xs)) = Inr i"
  "py_int x = Inl ValueError \<or> py_int x = Inl TypeError \<Longrightarrow> get_int (PSeq p (x # xs)) = Inr 0"
  by (auto simp: get_int_def get_int_body_def split: sum.splits dest: int_of_string_raises)

text \<open>
  \<open>get_int\<close> returns an integer on every value except those whose conversion raises
  \<open>OverflowError\<close>, the one exception of \<open>int()\<close> that its \<open>except\<close> clause does not name.
\<close>

lemma get_int_returns_or_overflows:
  "(\<exists>i. get_int v = Inr i) \<or> get_int v = Inl OverflowError"
proof (cases "get_int_body v")
  case (Inl e)
  from get_int_body_raises [OF Inl] show ?thesis
    by (auto simp: get_int_def Inl)
next
  case (Inr i)
  then show ?thesis by (simp add: get_int_def)
qed

text \<open>
  C7. The claim is that both extractors return on every input, the integer extractor
  mapping what cannot be converted to 0. The string extractor does (it is a total
  function, \<open>get_str_forms\<close>). The integer extractor does not: on the float infinity
  \<open>int()\<close> raises \<open>OverflowError\<close>, which \<open>except (ValueError, TypeError)\<close> lets through,
  so \<open>get_int(float('inf'))\<close> raises instead of returning 0.
\<close>

theorem get_int_overflow_escapes: "get_int (PFloat PosInf) = Inl OverflowError"
  by (simp add: get_int_def get_int_body_def)

section \<open>PixelPipeline: windowing\<close>






lemma window_pixel_below: "0 < ww \<Longrightarrow> x \<le> wl - ww / 2 \<Longrightarrow> window_pixel wl ww x = 0"
  by (simp add: window_pixel_def apply_windowing_def as_uint8_def np_clip_def Let_def
        max_def min_def)

lemma window_pixel_above: "0 < ww \<Longrightarrow> wl + ww / 2 \<le> x \<Longrightarrow> window_pixel wl ww x = 255"
  by (simp add: window_pixel_def apply_windowing_def as_uint8_def np_clip_def Let_def
        max_def min_def)






section \<open>PixelPipeline: window determination\<close>






section \<open>PixelPipeline: a width below zero\<close>




section \<open>StorageLayout: the directory name\<close>

lemma safe_char_not_space:
  "py_isalnum c \<or> c = CHR ''-'' \<or> c = CHR ''_'' \<Longrightarrow> \<not> py_isspace c"
  by (auto simp: py_isalnum_def py_isspace_def Let_def)

lemma strip_no_space: "\<forall>c \<in> set s. \<not> py_isspace c \<Longrightarrow> strip s = s"
proof (cases s)
  case Nil
  then show ?thesis by (simp add: strip_def)
next
  case (Cons c cs)
  assume a: "\<forall>c \<in> set s. \<not> py_isspace c"
  have lead: "dropWhile py_isspace s = s" using a Cons by simp
  have "rev s \<noteq> []" using Cons by simp
  then obtain d ds where r: "rev s = d # ds" by (cases "rev s") auto
  have "d \<in> set s" using r by (metis list.set_intros(1) set_rev)
  then have trail: "dropWhile py_isspace (rev s) = rev s" using a r by simp
  show ?thesis by (simp add: strip_def lead trail)
qed

text \<open>The \<open>strip()\<close> after the sanitizing filter never removes anything.\<close>

lemma strip_filter_safe:
  "strip (filter (\<lambda>c. py_isalnum c \<or> c = CHR ''-'' \<or> c = CHR ''_'') s) =
     filter (\<lambda>c. py_isalnum c \<or> c = CHR ''-'' \<or> c = CHR ''_'') s"
proof (rule strip_no_space, rule ballI)
  fix c
  assume "c \<in> set (filter (\<lambda>c. py_isalnum c \<or> c = CHR ''-'' \<or> c = CHR ''_'') s)"
  then have "py_isalnum c \<or> c = CHR ''-'' \<or> c = CHR ''_''" by simp
  then show "\<not> py_isspace c" by (rule safe_char_not_space)
qed

lemma unknown_accession_literal:
  "strip (filter (\<lambda>c. py_isalnum c \<or> c = CHR ''-'' \<or> c = CHR ''_'')
            (get_str (PStr ''UNKNOWN_ACCESSION''))) = ''UNKNOWN_ACCESSION''"
  by code_simp

lemma unknown_accession:
  "ds ''AccessionNumber'' = None \<Longrightarrow> accession_number_safe ds = ''UNKNOWN_ACCESSION''"
  by (simp only: accession_number_safe_def ds_get_def option.case unknown_accession_literal)

text \<open>
  C8, as the code has it. The directory name is the accession number with every
  character removed that is not alphanumeric, \<open>-\<close> or \<open>_\<close>, and the raw SOP instance
  identifier when nothing is left, for every dataset that has an AccessionNumber element;
  for a dataset without the element the accession number is read as the literal
  \<open>UNKNOWN_ACCESSION\<close>, which is the directory name then.
\<close>

theorem study_dir_name_rule:
  "study_dir_name ds =
     (case ds ''AccessionNumber'' of
        None \<Rightarrow> Inr ''UNKNOWN_ACCESSION''
      | Some v \<Rightarrow> directoryFor_spec ds)"
proof (cases "ds ''AccessionNumber''")
  case None
  then show ?thesis by (simp add: study_dir_name_def unknown_accession)
next
  case (Some v)
  then show ?thesis
    by (simp add: study_dir_name_def directoryFor_spec_def accession_number_safe_def
          strip_filter_safe ds_get_def Let_def)
qed

text \<open>
  A dataset with the SOP instance identifier 1.2.3 and no AccessionNumber element: the
  rule of the specification gives the directory 1.2.3, the handler gives
  \<open>UNKNOWN_ACCESSION\<close>.
\<close>

theorem absent_accession_counterexample:
  "study_dir_name [''SOPInstanceUID'' \<mapsto> PStr ''1.2.3''] = Inr ''UNKNOWN_ACCESSION''
   \<and> directoryFor_spec [''SOPInstanceUID'' \<mapsto> PStr ''1.2.3''] = Inr ''1.2.3''"
  by (simp add: study_dir_name_def unknown_accession directoryFor_spec_def ds_get_def
        ds_attr_def)

section \<open>PathResolver: the check against the storage root\<close>

text \<open>
  A reference whose canonical path does not start with the root's characters is answered
  with 403 by both routes, whatever is stored: no file is looked at.
\<close>

lemma rejected_before_reading:
  assumes "\<not> startswith (resolve_dicom_path_for_viewer base_dir reference)
               (RECEIVED_DICOM_ROOT base_dir)"
  shows "image_data base_dir later_stages stored reference wl_arg ww_arg enhance_mode =
           Inl (HTTPException 403)"
    and "image_metadata base_dir stored reference = Inl (HTTPException 403)"
  using assms by (simp_all add: image_data_def image_metadata_def)

lemma etc_passwd_rejected:
  "image_data ''/srv/app'' later_stages stored ''../../etc/passwd'' wl_arg ww_arg enhance_mode =
     Inl (HTTPException 403)"
proof -
  have "\<not> startswith (resolve_dicom_path_for_viewer ''/srv/app'' ''../../etc/passwd'')
            (RECEIVED_DICOM_ROOT ''/srv/app'')"
    by code_simp
  then show ?thesis by (rule rejected_before_reading)
qed

text \<open>
  C2. The claim is that every reference whose canonical path lies outside the storage
  root is rejected. The check is \<open>str.startswith\<close> on the canonical path, which compares
  characters, not path components: with the root \<open>/srv/app/received_dicom\<close> the reference
  \<open>../received_dicom_old/x.dcm\<close> resolves to \<open>/srv/app/received_dicom_old/x.dcm\<close>, a
  sibling directory outside the root, passes the check and is read and answered; so is
  the absolute path to the same file.
\<close>

theorem sibling_directory_passes_check:
  "resolve_dicom_path_for_viewer ''/srv/app'' ''../received_dicom_old/x.dcm'' =
     ''/srv/app/received_dicom_old/x.dcm''
   \<and> RECEIVED_DICOM_ROOT ''/srv/app'' = ''/srv/app/received_dicom''
   \<and> image_metadata ''/srv/app'' [''/srv/app/received_dicom_old/x.dcm'' \<mapsto> example_pixels]
        ''../received_dicom_old/x.dcm'' =
      Inr (255 / 2, 255, ''../received_dicom_old/x.dcm'')
   \<and> image_metadata ''/srv/app'' [''/srv/app/received_dicom_old/x.dcm'' \<mapsto> example_pixels]
        ''/srv/app/received_dicom_old/x.dcm'' =
      Inr (255 / 2, 255, ''/srv/app/received_dicom_old/x.dcm'')
   \<and> image_data ''/srv/app'' (\<lambda>_ _ a. Inr a)
        [''/srv/app/received_dicom_old/x.dcm'' \<mapsto> example_pixels]
        ''../received_dicom_old/x.dcm'' Missing Missing [] =
      Inr \<lparr>body = \<lparr>shape = [2, 2], samples = [0, 100, 200, 255]\<rparr>,
           x_current_wl = 255 / 2, x_current_ww = 255, x_current_enhance = []\<rparr>"
  by code_simp

section \<open>CatalogResolver: the record store and the resolvers\<close>

lemma logging_simps [simp]:
  "logging DEBUG msg st = st"
  "db (logging lvl msg st) = db st"
  "files (logging lvl msg st) = files st"
  by (simp_all add: logging_def)

lemma log_logging: "lvl \<noteq> DEBUG \<Longrightarrow> log (logging lvl msg st) = log st @ [(lvl, msg)]"
  by (simp add: logging_def)



lemma insert_returning_rows:
  "insert_returning cs t = Inr (k, t') \<Longrightarrow>
     k = next_prkey t \<and> rows t' = rows t @ [\<lparr>prkey = k, cols = cs\<rparr>] \<and> unique_on t' = unique_on t"
  by (auto simp: insert_returning_def split: if_splits)

lemma insert_returning_raises: "insert_returning cs t = Inl e \<Longrightarrow> e = UniqueViolation \<and> violates t cs"
  by (auto simp: insert_returning_def split: if_splits)

lemma find_snoc:
  "find P (xs @ [y]) = (case find P xs of None \<Rightarrow> (if P y then Some y else None) | Some x \<Rightarrow> Some x)"
  by (induction xs) auto

lemma select_after_insert:
  assumes "insert_returning cs t = Inr (k, t')" and "select_where col v t = None"
    and "map_of cs col = Some v"
  shows "select_where col v t' = Some \<lparr>prkey = k, cols = cs\<rparr>"
  using assms insert_returning_rows [OF assms(1)]
  by (simp add: select_where_def find_snoc)

lemma natural_key_frame:
  assumes "natural_key ds keyword sentinel st = Inr (key, st1)"
  shows "db st1 = db st" and "files st1 = files st"
  using assms by (auto simp: natural_key_def split: if_splits sum.splits)

lemma natural_key_again:
  assumes "natural_key ds keyword sentinel st = Inr (key, st1)"
  shows "\<exists>st1'. natural_key ds keyword sentinel st' = Inr (key, st1')"
  using assms by (auto simp: natural_key_def split: if_splits sum.splits)


lemma patient_char:
  assumes "natural_key ds ''PatientID'' ''UNKNOWN_PATIENT_'' st = Inr (key, st1)"
  shows "get_or_create_patient ds between hint st =
     (case select_where ''patient_id'' (SText key) (patient_tbl (db st)) of
        Some r \<Rightarrow> (Inr (prkey r), st1)
      | None \<Rightarrow>
          (case insert_returning (patient_columns ds key hint) (patient_tbl (between (db st))) of
             Inl e \<Rightarrow> (Inl e, st1\<lparr>db := between (db st)\<rparr>)
           | Inr (k, t) \<Rightarrow> (Inr k, st1\<lparr>db := (between (db st))\<lparr>patient_tbl := t\<rparr>\<rparr>)))"
  using natural_key_frame(1) [OF assms]
  by (simp add: get_or_create_patient_def assms Let_def split: option.splits sum.splits)

lemma study_char:
  assumes "natural_key ds ''StudyInstanceUID'' ''UNKNOWN_STUDY_'' st = Inr (key, st1)"
    and "accession_fallback ds key st1 = (acc, st2)"
  shows "get_or_create_study ds between pk hint st =
     (case select_where ''study_instance_uid'' (SText key) (study_tbl (db st)) of
        Some r \<Rightarrow> (Inr (prkey r), st1)
      | None \<Rightarrow>
          (case insert_returning (study_columns ds key acc pk hint) (study_tbl (between (db st))) of
             Inl e \<Rightarrow> (Inl e, st2\<lparr>db := between (db st)\<rparr>)
           | Inr (k, t) \<Rightarrow> (Inr k, st2\<lparr>db := (between (db st))\<lparr>study_tbl := t\<rparr>\<rparr>)))"
proof -
  have "db st1 = db st" by (rule natural_key_frame(1) [OF assms(1)])
  moreover have "db st2 = db st1"
    using assms(2) by (auto simp: accession_fallback_def split: if_splits)
  ultimately show ?thesis
    by (simp add: get_or_create_study_def assms Let_def split: option.splits sum.splits)
qed

lemma series_char:
  assumes "natural_key ds ''SeriesInstanceUID'' ''UNKNOWN_SERIES_'' st = Inr (key, st1)"
  shows "get_or_create_series ds between sk hint st =
     (case select_where ''series_instance_uid'' (SText key) (series_tbl (db st)) of
        Some r \<Rightarrow> (Inr (prkey r), st1)
      | None \<Rightarrow>
          (case insert_returning (series_columns ds key sk hint) (series_tbl (between (db st))) of
             Inl e \<Rightarrow> (Inl e, st1\<lparr>db := between (db st)\<rparr>)
           | Inr (k, t) \<Rightarrow> (Inr k, st1\<lparr>db := (between (db st))\<lparr>series_tbl := t\<rparr>\<rparr>)))"
  using natural_key_frame(1) [OF assms]
  by (simp add: get_or_create_series_def assms Let_def split: option.splits sum.splits)


lemma resolver_raises:
  "natural_key ds ''PatientID'' ''UNKNOWN_PATIENT_'' st = Inl e \<Longrightarrow>
     get_or_create_patient ds between hint st = (Inl e, st)"
  "natural_key ds ''StudyInstanceUID'' ''UNKNOWN_STUDY_'' st = Inl e \<Longrightarrow>
     get_or_create_study ds between pk hint st = (Inl e, st)"
  "natural_key ds ''SeriesInstanceUID'' ''UNKNOWN_SERIES_'' st = Inl e \<Longrightarrow>
     get_or_create_series ds between sk hint st = (Inl e, st)"
  by (simp_all add: get_or_create_patient_def get_or_create_study_def get_or_create_series_def)

lemma patient_post:
  assumes nk: "natural_key ds ''PatientID'' ''UNKNOWN_PATIENT_'' st = Inr (key, st1)"
    and run: "get_or_create_patient ds id hint st = (Inr k, st')"
  shows "\<exists>r. select_where ''patient_id'' (SText key) (patient_tbl (db st')) = Some r \<and> prkey r = k"
    and "study_tbl (db st') = study_tbl (db st)"
    and "series_tbl (db st') = series_tbl (db st)"
    and "image_tbl (db st') = image_tbl (db st)"
    and "files st' = files st"
proof -
  note fr = natural_key_frame [OF nk]
  have key_col: "map_of (patient_columns ds key hint) ''patient_id'' = Some (SText key)"
    by (simp add: patient_columns_def)
  show "\<exists>r. select_where ''patient_id'' (SText key) (patient_tbl (db st')) = Some r \<and> prkey r = k"
    using run fr unfolding patient_char [OF nk]
    by (auto split: option.splits sum.splits dest: select_after_insert [OF _ _ key_col])
  show "study_tbl (db st') = study_tbl (db st)" "series_tbl (db st') = series_tbl (db st)"
    "image_tbl (db st') = image_tbl (db st)" "files st' = files st"
    using run fr unfolding patient_char [OF nk]
    by (auto split: option.splits sum.splits)
qed

lemma study_post:
  assumes nk: "natural_key ds ''StudyInstanceUID'' ''UNKNOWN_STUDY_'' st = Inr (key, st1)"
    and run: "get_or_create_study ds id pk hint st = (Inr k, st')"
  shows "\<exists>r. select_where ''study_instance_uid'' (SText key) (study_tbl (db st')) = Some r \<and> prkey r = k"
    and "patient_tbl (db st') = patient_tbl (db st)"
    and "series_tbl (db st') = series_tbl (db st)"
    and "image_tbl (db st') = image_tbl (db st)"
    and "files st' = files st"
proof -
  note fr = natural_key_frame [OF nk]
  obtain acc st2 where af: "accession_fallback ds key st1 = (acc, st2)" by fastforce
  have fr2: "db st2 = db st1" "files st2 = files st1"
    using af by (auto simp: accession_fallback_def split: if_splits)
  have key_col: "map_of (study_columns ds key acc pk hint) ''study_instance_uid'' = Some (SText key)"
    by (simp add: study_columns_def)
  show "\<exists>r. select_where ''study_instance_uid'' (SText key) (study_tbl (db st')) = Some r \<and> prkey r = k"
    using run fr fr2 unfolding study_char [OF nk af]
    by (auto split: option.splits sum.splits dest: select_after_insert [OF _ _ key_col])
  show "patient_tbl (db st') = patient_tbl (db st)" "series_tbl (db st') = series_tbl (db st)"
    "image_tbl (db st') = image_tbl (db st)" "files st' = files st"
    using run fr fr2 unfolding study_char [OF nk af]
    by (auto split: option.splits sum.splits)
qed

lemma series_post:
  assumes nk: "natural_key ds ''SeriesInstanceUID'' ''UNKNOWN_SERIES_'' st = Inr (key, st1)"
    and run: "get_or_create_series ds id sk hint st = (Inr k, st')"
  shows "\<exists>r. select_where ''series_instance_uid'' (SText key) (series_tbl (db st')) = Some r \<and> prkey r = k"
    and "patient_tbl (db st') = patient_tbl (db st)"
    and "study_tbl (db st') = study_tbl (db st)"
    and "image_tbl (db st') = image_tbl (db st)"
    and "files st' = files st"
proof -
  note fr = natural_key_frame [OF nk]
  have key_col: "map_of (series_columns ds key sk hint) ''series_instance_uid'' = Some (SText key)"
    by (simp add: series_columns_def)
  show "\<exists>r. select_where ''series_instance_uid'' (SText key) (series_tbl (db st')) = Some r \<and> prkey r = k"
    using run fr unfolding series_char [OF nk]
    by (auto split: option.splits sum.splits dest: select_after_insert [OF _ _ key_col])
  show "patient_tbl (db st') = patient_tbl (db st)" "study_tbl (db st') = study_tbl (db st)"
    "image_tbl (db st') = image_tbl (db st)" "files st' = files st"
    using run fr unfolding series_char [OF nk]
    by (auto split: option.splits sum.splits)
qed

lemma success_has_key:
  "get_or_create_patient ds between hint st = (Inr k, st') \<Longrightarrow>
     \<exists>key st1. natural_key ds ''PatientID'' ''UNKNOWN_PATIENT_'' st = Inr (key, st1)"
  "get_or_create_study ds between pk hint st = (Inr k, st') \<Longrightarrow>
     \<exists>key st1. natural_key ds ''StudyInstanceUID'' ''UNKNOWN_STUDY_'' st = Inr (key, st1)"
  "get_or_create_series ds between sk hint st = (Inr k, st') \<Longrightarrow>
     \<exists>key st1. natural_key ds ''SeriesInstanceUID'' ''UNKNOWN_SERIES_'' st = Inr (key, st1)"
  by (auto simp: get_or_create_patient_def get_or_create_study_def get_or_create_series_def
           split: sum.splits)





lemma save_metadata_success:
  assumes "files st (realpath (path_join (RECEIVED_DICOM_ROOT base_dir) path)) = Some (Dicom decoded)"
    and "save_metadata base_dir between path st = (Inr u, st1)"
  shows "\<exists>pk sk ek sa sb sc sd.
           get_or_create_patient (decoded(''Path'' \<mapsto> PStr path)) between (PStr path) st = (Inr pk, sa)
         \<and> get_or_create_study (decoded(''Path'' \<mapsto> PStr path)) between pk (PStr path) sa = (Inr sk, sb)
         \<and> get_or_create_series (decoded(''Path'' \<mapsto> PStr path)) between sk (PStr path) sb = (Inr ek, sc)
         \<and> save_image_metadata (decoded(''Path'' \<mapsto> PStr path)) between pk ek sc = (Inr (), sd)
         \<and> db st1 = db sd \<and> files st1 = files sd"
  using assms
  by (auto simp: save_metadata_def Let_def split: prod.splits sum.splits)




section \<open>CatalogResolver: ingesting twice\<close>





section \<open>CatalogResolver: a lost race\<close>











section \<open>CatalogResolver: how a resolver can fail, and what it leaves\<close>

lemma natural_key_raises: "natural_key ds keyword sentinel st = Inl e \<Longrightarrow> e = AttributeError"
  by (auto simp: natural_key_def ds_attr_def split: if_splits option.splits)

lemma natural_key_log:
  assumes "natural_key ds keyword sentinel st = Inr (key, st1)"
  shows "set (log st) \<subseteq> set (log st1)"
  using assms by (auto simp: natural_key_def logging_def split: if_splits sum.splits)


lemma accession_fallback_frame:
  assumes "accession_fallback ds uid st = (acc, st')"
  shows "db st' = db st" and "files st' = files st" and "set (log st) \<subseteq> set (log st')"
  using assms by (auto simp: accession_fallback_def logging_def split: if_splits)

lemma study_any:
  assumes "get_or_create_study ds id pk hint st = (res, st')"
  shows "image_tbl (db st') = image_tbl (db st) \<and> set (log st) \<subseteq> set (log st')
         \<and> ((\<exists>k. res = Inr k) \<or> res = Inl AttributeError \<or> res = Inl UniqueViolation)"
proof (cases "natural_key ds ''StudyInstanceUID'' ''UNKNOWN_STUDY_'' st")
  case (Inl x)
  from resolver_raises(2) [OF Inl] natural_key_raises [OF Inl] assms
  show ?thesis by auto
next
  case (Inr p)
  obtain key st1 where nk: "natural_key ds ''StudyInstanceUID'' ''UNKNOWN_STUDY_'' st = Inr (key, st1)"
    using Inr by (cases p) auto
  obtain acc st2 where af: "accession_fallback ds key st1 = (acc, st2)" by fastforce
  note fr = natural_key_frame [OF nk] natural_key_log [OF nk] accession_fallback_frame [OF af]
  show ?thesis
    using assms fr unfolding study_char [OF nk af]
    by (auto split: option.splits sum.splits dest: insert_returning_raises)
qed

lemma series_any:
  assumes "get_or_create_series ds id sk hint st = (res, st')"
  shows "image_tbl (db st') = image_tbl (db st) \<and> set (log st) \<subseteq> set (log st')
         \<and> ((\<exists>k. res = Inr k) \<or> res = Inl AttributeError \<or> res = Inl UniqueViolation)"
proof (cases "natural_key ds ''SeriesInstanceUID'' ''UNKNOWN_SERIES_'' st")
  case (Inl x)
  from resolver_raises(3) [OF Inl] natural_key_raises [OF Inl] assms
  show ?thesis by auto
next
  case (Inr p)
  obtain key st1 where nk: "natural_key ds ''SeriesInstanceUID'' ''UNKNOWN_SERIES_'' st = Inr (key, st1)"
    using Inr by (cases p) auto
  note fr = natural_key_frame [OF nk] natural_key_log [OF nk]
  show ?thesis
    using assms fr unfolding series_char [OF nk]
    by (auto split: option.splits sum.splits dest: insert_returning_raises)
qed


section \<open>CatalogResolver: an empty SOP instance identifier\<close>






section \<open>CatalogResolver: synthesized identifiers\<close>

lemma natural_key_synthesized:
  assumes "get_str (ds_get ds keyword PNone) = []" and "ds ''SOPInstanceUID'' = Some uid"
  shows "natural_key ds keyword sentinel st =
           Inr (sentinel @ py_str uid,
                logging WARNING (keyword @ '' kosong, menggunakan fallback: '' @ sentinel @ py_str uid) st)"
  using assms by (simp add: natural_key_def ds_attr_def)

lemma natural_key_needs_uid:
  assumes "get_str (ds_get ds keyword PNone) = []"
    and "natural_key ds keyword sentinel st = Inr (key, st1)"
  shows "\<exists>uid. ds ''SOPInstanceUID'' = Some uid"
  using assms by (auto simp: natural_key_def ds_attr_def split: option.splits)

lemma image_log:
  assumes "save_image_metadata ds id pk ek st = (Inr u, st')"
  shows "set (log st) \<subseteq> set (log st')"
  using assms
  by (auto simp: save_image_metadata_def Let_def logging_def
           split: if_splits option.splits sum.splits prod.splits)

lemma save_metadata_success_log:
  assumes "files st (realpath (path_join (RECEIVED_DICOM_ROOT base_dir) path)) = Some (Dicom decoded)"
    and "save_metadata base_dir between path st = (Inr u, st1)"
    and "get_or_create_patient (decoded(''Path'' \<mapsto> PStr path)) between (PStr path) st = (Inr pk, sa)"
    and "get_or_create_study (decoded(''Path'' \<mapsto> PStr path)) between pk (PStr path) sa = (Inr sk, sb)"
    and "get_or_create_series (decoded(''Path'' \<mapsto> PStr path)) between sk (PStr path) sb = (Inr ek, sc)"
    and "save_image_metadata (decoded(''Path'' \<mapsto> PStr path)) between pk ek sc = (Inr (), sd)"
  shows "set (log sd) \<subseteq> set (log st1)"
  using assms
  by (auto simp: save_metadata_def Let_def logging_def)

lemma patient_created:
  assumes nk: "natural_key ds ''PatientID'' ''UNKNOWN_PATIENT_'' st = Inr (key, st1)"
    and miss: "select_where ''patient_id'' (SText key) (patient_tbl (db st)) = None"
    and run: "get_or_create_patient ds id hint st = (Inr k, st')"
  shows "rows (patient_tbl (db st')) =
           rows (patient_tbl (db st)) @ [\<lparr>prkey = k, cols = patient_columns ds key hint\<rparr>]"
    and "log st' = log st1"
  using run miss unfolding patient_char [OF nk]
  by (auto split: sum.splits dest: insert_returning_rows)

lemma study_created:
  assumes nk: "natural_key ds ''StudyInstanceUID'' ''UNKNOWN_STUDY_'' st = Inr (key, st1)"
    and af: "accession_fallback ds key st1 = (acc, st2)"
    and miss: "select_where ''study_instance_uid'' (SText key) (study_tbl (db st)) = None"
    and run: "get_or_create_study ds id pk hint st = (Inr k, st')"
  shows "rows (study_tbl (db st')) =
           rows (study_tbl (db st)) @ [\<lparr>prkey = k, cols = study_columns ds key acc pk hint\<rparr>]"
    and "log st' = log st2"
  using run miss unfolding study_char [OF nk af]
  by (auto split: sum.splits dest: insert_returning_rows)

lemma accession_fallback_empty:
  "get_str (ds_get ds ''AccessionNumber'' PNone) = [] \<Longrightarrow>
     accession_fallback ds uid st =
       (uid, logging WARNING
               (''AccessionNumber kosong, menggunakan StudyInstanceUID '' @ [CHR 0x27] @ uid
                  @ [CHR 0x27] @ '' sebagai fallback.'') st)"
  by (simp add: accession_fallback_def)

text \<open>
  C6. An ingestion that returns, with nothing else writing to the catalog. If the
  dataset's PatientID extracts to the empty string, the Patient is resolved under the
  natural key \<open>UNKNOWN_PATIENT_\<close> followed by \<open>str(ds.SOPInstanceUID)\<close>, with a warning in
  the log; a row with that key is in the catalog afterwards, and when none was there before
  it is the one row the ingestion appended. If the AccessionNumber extracts to the empty
  string and no Study row had the study's natural key (the StudyInstanceUID, or the
  synthesized one), the Study row the ingestion appended stores that key as its accession
  number, and the substitution is in the log as a warning.
\<close>

theorem fallback_identifiers:
  assumes stored: "files st (realpath (path_join (RECEIVED_DICOM_ROOT base_dir) path)) = Some (Dicom decoded)"
    and ds: "ds = decoded(''Path'' \<mapsto> PStr path)"
    and run: "save_metadata base_dir id path st = (Inr (), st1)"
  shows
    "(get_str (ds_get ds ''PatientID'' PNone) = [] \<longrightarrow>
       (\<exists>uid. ds ''SOPInstanceUID'' = Some uid
          \<and> (WARNING, ''PatientID'' @ '' kosong, menggunakan fallback: '' @ ''UNKNOWN_PATIENT_'' @ py_str uid)
               \<in> set (log st1)
          \<and> (\<exists>r. select_where ''patient_id'' (SText (''UNKNOWN_PATIENT_'' @ py_str uid))
                    (patient_tbl (db st1)) = Some r)
          \<and> (select_where ''patient_id'' (SText (''UNKNOWN_PATIENT_'' @ py_str uid))
                (patient_tbl (db st)) = None \<longrightarrow>
              (\<exists>k. rows (patient_tbl (db st1)) =
                     rows (patient_tbl (db st))
                       @ [\<lparr>prkey = k,
                           cols = patient_columns ds (''UNKNOWN_PATIENT_'' @ py_str uid) (PStr path)\<rparr>]))))
     \<and> (get_str (ds_get ds ''AccessionNumber'' PNone) = [] \<longrightarrow>
       (\<exists>suid s'. natural_key ds ''StudyInstanceUID'' ''UNKNOWN_STUDY_'' st = Inr (suid, s')
          \<and> (select_where ''study_instance_uid'' (SText suid) (study_tbl (db st)) = None \<longrightarrow>
              (\<exists>k pk. rows (study_tbl (db st1)) =
                        rows (study_tbl (db st))
                          @ [\<lparr>prkey = k, cols = study_columns ds suid suid pk (PStr path)\<rparr>]
                     \<and> map_of (study_columns ds suid suid pk (PStr path)) ''accession_number'' =
                         Some (SText suid))
              \<and> (WARNING, ''AccessionNumber kosong, menggunakan StudyInstanceUID '' @ [CHR 0x27] @ suid
                              @ [CHR 0x27] @ '' sebagai fallback.'') \<in> set (log st1))))"
proof -
  let ?h = "PStr path"
  from save_metadata_success [OF stored run] obtain pk sk ek sa sb sc sd where
    p1: "get_or_create_patient ds id ?h st = (Inr pk, sa)" and
    s1: "get_or_create_study ds id pk ?h sa = (Inr sk, sb)" and
    e1: "get_or_create_series ds id sk ?h sb = (Inr ek, sc)" and
    i1: "save_image_metadata ds id pk ek sc = (Inr (), sd)" and
    d1: "db st1 = db sd" and f1: "files st1 = files sd"
    unfolding ds by blast
  have l1: "set (log sd) \<subseteq> set (log st1)"
    by (rule save_metadata_success_log [OF stored run p1 [unfolded ds] s1 [unfolded ds]
          e1 [unfolded ds] i1 [unfolded ds]])
  from success_has_key(1) [OF p1] obtain kp np where
    nkp: "natural_key ds ''PatientID'' ''UNKNOWN_PATIENT_'' st = Inr (kp, np)" by blast
  from success_has_key(2) [OF s1] obtain ks ns where
    nks: "natural_key ds ''StudyInstanceUID'' ''UNKNOWN_STUDY_'' sa = Inr (ks, ns)" by blast
  from success_has_key(3) [OF e1] obtain ke ne where
    nke: "natural_key ds ''SeriesInstanceUID'' ''UNKNOWN_SERIES_'' sb = Inr (ke, ne)" by blast
  note pp = patient_post [OF nkp p1]
  note sp = study_post [OF nks s1]
  note ep = series_post [OF nke e1]
  have ip: "patient_tbl (db sd) = patient_tbl (db sc)" "study_tbl (db sd) = study_tbl (db sc)"
    using i1 by (auto simp: save_image_metadata_def Let_def
                      split: if_splits option.splits sum.splits prod.splits)
  have tp: "patient_tbl (db st1) = patient_tbl (db sa)" by (simp add: d1 ip sp ep)
  have ts: "study_tbl (db st1) = study_tbl (db sb)" by (simp add: d1 ip ep)
  have logs: "set (log sa) \<subseteq> set (log sb)" "set (log sb) \<subseteq> set (log sc)" "set (log sc) \<subseteq> set (log sd)"
    using study_any [OF s1] series_any [OF e1] image_log [OF i1] by auto
  have la: "set (log sa) \<subseteq> set (log st1)" and lb: "set (log sb) \<subseteq> set (log st1)"
    using logs l1 by auto
  have patient: "\<exists>uid. ds ''SOPInstanceUID'' = Some uid
          \<and> (WARNING, ''PatientID'' @ '' kosong, menggunakan fallback: '' @ ''UNKNOWN_PATIENT_'' @ py_str uid)
               \<in> set (log st1)
          \<and> (\<exists>r. select_where ''patient_id'' (SText (''UNKNOWN_PATIENT_'' @ py_str uid))
                    (patient_tbl (db st1)) = Some r)
          \<and> (select_where ''patient_id'' (SText (''UNKNOWN_PATIENT_'' @ py_str uid))
                (patient_tbl (db st)) = None \<longrightarrow>
              (\<exists>k. rows (patient_tbl (db st1)) =
                     rows (patient_tbl (db st))
                       @ [\<lparr>prkey = k,
                           cols = patient_columns ds (''UNKNOWN_PATIENT_'' @ py_str uid) (PStr path)\<rparr>]))"
    if empty: "get_str (ds_get ds ''PatientID'' PNone) = []"
  proof -
    from natural_key_needs_uid [OF empty nkp] obtain uid where uid: "ds ''SOPInstanceUID'' = Some uid"
      by blast
    let ?key = "''UNKNOWN_PATIENT_'' @ py_str uid"
    let ?msg = "''PatientID'' @ '' kosong, menggunakan fallback: '' @ ''UNKNOWN_PATIENT_'' @ py_str uid"
    have nk: "natural_key ds ''PatientID'' ''UNKNOWN_PATIENT_'' st = Inr (?key, logging WARNING ?msg st)"
      by (rule natural_key_synthesized [OF empty uid])
    have "Inr (kp, np) = (Inr (?key, logging WARNING ?msg st) :: exn + string \<times> state)"
      unfolding nkp [symmetric] nk [symmetric] ..
    then have kp: "kp = ?key" and np: "np = logging WARNING ?msg st"
      by (simp_all only: sum.inject prod.inject)
    have "(WARNING, ?msg) \<in> set (log np)" by (simp add: np logging_def)
    moreover have "set (log np) \<subseteq> set (log sa)"
      using p1 natural_key_frame [OF nkp] unfolding patient_char [OF nkp]
      by (auto split: option.splits sum.splits)
    ultimately have warned: "(WARNING, ?msg) \<in> set (log st1)" using la by blast
    from pp(1) have found: "\<exists>r. select_where ''patient_id'' (SText ?key) (patient_tbl (db st1)) = Some r"
      by (auto simp: tp kp)
    have created: "\<exists>k. rows (patient_tbl (db st1)) =
                     rows (patient_tbl (db st)) @ [\<lparr>prkey = k, cols = patient_columns ds ?key (PStr path)\<rparr>]"
      if "select_where ''patient_id'' (SText ?key) (patient_tbl (db st)) = None"
      using patient_created(1) [OF nk that p1] by (auto simp: tp)
    show ?thesis
    proof (intro exI [of _ uid] conjI impI)
      show "ds ''SOPInstanceUID'' = Some uid" by (rule uid)
      show "(WARNING, ?msg) \<in> set (log st1)" by (rule warned)
      show "\<exists>r. select_where ''patient_id'' (SText ?key) (patient_tbl (db st1)) = Some r"
        by (rule found)
      assume "select_where ''patient_id'' (SText ?key) (patient_tbl (db st)) = None"
      then show "\<exists>k. rows (patient_tbl (db st1)) =
                     rows (patient_tbl (db st)) @ [\<lparr>prkey = k, cols = patient_columns ds ?key (PStr path)\<rparr>]"
        by (rule created)
    qed
  qed
  have study: "\<exists>suid s'. natural_key ds ''StudyInstanceUID'' ''UNKNOWN_STUDY_'' st = Inr (suid, s')
          \<and> (select_where ''study_instance_uid'' (SText suid) (study_tbl (db st)) = None \<longrightarrow>
              (\<exists>k pk. rows (study_tbl (db st1)) =
                        rows (study_tbl (db st))
                          @ [\<lparr>prkey = k, cols = study_columns ds suid suid pk (PStr path)\<rparr>]
                     \<and> map_of (study_columns ds suid suid pk (PStr path)) ''accession_number'' =
                         Some (SText suid))
              \<and> (WARNING, ''AccessionNumber kosong, menggunakan StudyInstanceUID '' @ [CHR 0x27] @ suid
                              @ [CHR 0x27] @ '' sebagai fallback.'') \<in> set (log st1))"
    if empty: "get_str (ds_get ds ''AccessionNumber'' PNone) = []"
  proof -
    let ?msg = "''AccessionNumber kosong, menggunakan StudyInstanceUID '' @ [CHR 0x27] @ ks
                  @ [CHR 0x27] @ '' sebagai fallback.''"
    from natural_key_again [OF nks, of st] obtain s' where
      nk0: "natural_key ds ''StudyInstanceUID'' ''UNKNOWN_STUDY_'' st = Inr (ks, s')" by blast
    have af: "accession_fallback ds ks ns = (ks, logging WARNING ?msg ns)"
      by (rule accession_fallback_empty [OF empty])
    have concl: "(\<exists>k pk. rows (study_tbl (db st1)) =
                        rows (study_tbl (db st)) @ [\<lparr>prkey = k, cols = study_columns ds ks ks pk (PStr path)\<rparr>]
                     \<and> map_of (study_columns ds ks ks pk (PStr path)) ''accession_number'' = Some (SText ks))
              \<and> (WARNING, ?msg) \<in> set (log st1)"
      if miss: "select_where ''study_instance_uid'' (SText ks) (study_tbl (db st)) = None"
    proof -
      have miss': "select_where ''study_instance_uid'' (SText ks) (study_tbl (db sa)) = None"
        using miss by (simp add: pp)
      note sc = study_created [OF nks af miss' s1]
      have "rows (study_tbl (db st1)) =
              rows (study_tbl (db st)) @ [\<lparr>prkey = sk, cols = study_columns ds ks ks pk (PStr path)\<rparr>]"
        using sc(1) by (simp add: ts pp)
      moreover have "map_of (study_columns ds ks ks pk (PStr path)) ''accession_number'' = Some (SText ks)"
        by (simp add: study_columns_def)
      moreover have "(WARNING, ?msg) \<in> set (log st1)" using lb sc(2)
        by (auto simp: logging_def)
      ultimately show ?thesis by (intro conjI exI [of _ sk] exI [of _ pk])
    qed
    show ?thesis
    proof (intro exI [of _ ks] exI [of _ s'] conjI impI)
      show "natural_key ds ''StudyInstanceUID'' ''UNKNOWN_STUDY_'' st = Inr (ks, s')" by (rule nk0)
      assume m: "select_where ''study_instance_uid'' (SText ks) (study_tbl (db st)) = None"
      from concl [OF m]
      show "\<exists>k pk. rows (study_tbl (db st1)) =
                        rows (study_tbl (db st)) @ [\<lparr>prkey = k, cols = study_columns ds ks ks pk (PStr path)\<rparr>]
                     \<and> map_of (study_columns ds ks ks pk (PStr path)) ''accession_number'' = Some (SText ks)"
        by (rule conjunct1)
      from concl [OF m] show "(WARNING, ?msg) \<in> set (log st1)" by (rule conjunct2)
    qed
  qed
  show ?thesis
  proof (intro conjI impI)
    assume "get_str (ds_get ds ''PatientID'' PNone) = []"
    then show "\<exists>uid. ds ''SOPInstanceUID'' = Some uid
          \<and> (WARNING, ''PatientID'' @ '' kosong, menggunakan fallback: '' @ ''UNKNOWN_PATIENT_'' @ py_str uid)
               \<in> set (log st1)
          \<and> (\<exists>r. select_where ''patient_id'' (SText (''UNKNOWN_PATIENT_'' @ py_str uid))
                    (patient_tbl (db st1)) = Some r)
          \<and> (select_where ''patient_id'' (SText (''UNKNOWN_PATIENT_'' @ py_str uid))
                (patient_tbl (db st)) = None \<longrightarrow>
              (\<exists>k. rows (patient_tbl (db st1)) =
                     rows (patient_tbl (db st))
                       @ [\<lparr>prkey = k,
                           cols = patient_columns ds (''UNKNOWN_PATIENT_'' @ py_str uid) (PStr path)\<rparr>]))"
      by (rule patient)
  next
    assume "get_str (ds_get ds ''AccessionNumber'' PNone) = []"
    then show "\<exists>suid s'. natural_key ds ''StudyInstanceUID'' ''UNKNOWN_STUDY_'' st = Inr (suid, s')
          \<and> (select_where ''study_instance_uid'' (SText suid) (study_tbl (db st)) = None \<longrightarrow>
              (\<exists>k pk. rows (study_tbl (db st1)) =
                        rows (study_tbl (db st))
                          @ [\<lparr>prkey = k, cols = study_columns ds suid suid pk (PStr path)\<rparr>]
                     \<and> map_of (study_columns ds suid suid pk (PStr path)) ''accession_number'' =
                         Some (SText suid))
              \<and> (WARNING, ''AccessionNumber kosong, menggunakan StudyInstanceUID '' @ [CHR 0x27] @ suid
                              @ [CHR 0x27] @ '' sebagai fallback.'') \<in> set (log st1))"
      by (rule study)
  qed
qed

lemma example_anonymous_stored:
  "files example_anonymous_state
     (realpath (path_join (RECEIVED_DICOM_ROOT ''/srv/app'') ''UNKNOWN_ACCESSION/1.2.3.dcm'')) =
     Some (Dicom example_anonymous)"
proof -
  have "realpath (path_join (RECEIVED_DICOM_ROOT ''/srv/app'') ''UNKNOWN_ACCESSION/1.2.3.dcm'') =
          ''/srv/app/received_dicom/UNKNOWN_ACCESSION/1.2.3.dcm''"
    by code_simp
  then show ?thesis by (simp add: example_anonymous_state_def)
qed

theorem fallback_identifiers_witness:
  "(WARNING, ''PatientID kosong, menggunakan fallback: UNKNOWN_PATIENT_1.2.3'')
      \<in> set (log (snd (save_metadata ''/srv/app'' id ''UNKNOWN_ACCESSION/1.2.3.dcm''
                          example_anonymous_state)))
   \<and> (\<exists>k. rows (patient_tbl (db (snd (save_metadata ''/srv/app'' id
                 ''UNKNOWN_ACCESSION/1.2.3.dcm'' example_anonymous_state)))) =
            [\<lparr>prkey = k,
              cols = patient_columns
                       (example_anonymous(''Path'' \<mapsto> PStr ''UNKNOWN_ACCESSION/1.2.3.dcm''))
                       ''UNKNOWN_PATIENT_1.2.3'' (PStr ''UNKNOWN_ACCESSION/1.2.3.dcm'')\<rparr>])
   \<and> (\<exists>k pk. rows (study_tbl (db (snd (save_metadata ''/srv/app'' id
                 ''UNKNOWN_ACCESSION/1.2.3.dcm'' example_anonymous_state)))) =
            [\<lparr>prkey = k,
              cols = study_columns
                       (example_anonymous(''Path'' \<mapsto> PStr ''UNKNOWN_ACCESSION/1.2.3.dcm''))
                       ''UNKNOWN_STUDY_1.2.3'' ''UNKNOWN_STUDY_1.2.3'' pk
                       (PStr ''UNKNOWN_ACCESSION/1.2.3.dcm'')\<rparr>])
   \<and> (WARNING, ''AccessionNumber kosong, menggunakan StudyInstanceUID '' @ [CHR 0x27]
               @ ''UNKNOWN_STUDY_1.2.3'' @ [CHR 0x27] @ '' sebagai fallback.'')
      \<in> set (log (snd (save_metadata ''/srv/app'' id ''UNKNOWN_ACCESSION/1.2.3.dcm''
                          example_anonymous_state)))"
proof -
  let ?p = "''UNKNOWN_ACCESSION/1.2.3.dcm''"
  let ?ds = "example_anonymous(''Path'' \<mapsto> PStr ?p)"
  let ?st = example_anonymous_state
  let ?st1 = "snd (save_metadata ''/srv/app'' id ?p ?st)"
  have "fst (save_metadata ''/srv/app'' id ?p ?st) = Inr ()" by code_simp
  then have first: "save_metadata ''/srv/app'' id ?p ?st = (Inr (), ?st1)"
    by (simp add: prod_eq_iff)
  have no_pid: "get_str (ds_get ?ds ''PatientID'' PNone) = []"
    and no_acc: "get_str (ds_get ?ds ''AccessionNumber'' PNone) = []"
    and no_suid: "get_str (ds_get ?ds ''StudyInstanceUID'' PNone) = []"
    by code_simp+
  have uid: "?ds ''SOPInstanceUID'' = Some (PStr ''1.2.3'')"
    by (simp add: example_anonymous_def)
  have empty: "rows (patient_tbl (db ?st)) = []" "rows (study_tbl (db ?st)) = []"
    by (simp_all add: example_anonymous_state_def example_store_def)
  have miss: "select_where c v (patient_tbl (db ?st)) = None"
    "select_where c v (study_tbl (db ?st)) = None" for c v
    by (simp_all add: select_where_def empty)
  note fb = fallback_identifiers [OF example_anonymous_stored refl first]
  from fb no_pid uid miss(1) empty(1)
  have a: "(WARNING, ''PatientID kosong, menggunakan fallback: UNKNOWN_PATIENT_1.2.3'') \<in> set (log ?st1)"
    and b: "\<exists>k. rows (patient_tbl (db ?st1)) =
                 [\<lparr>prkey = k, cols = patient_columns ?ds ''UNKNOWN_PATIENT_1.2.3'' (PStr ?p)\<rparr>]"
    by auto
  have nk: "natural_key ?ds ''StudyInstanceUID'' ''UNKNOWN_STUDY_'' ?st =
              Inr (''UNKNOWN_STUDY_'' @ py_str (PStr ''1.2.3''),
                   logging WARNING (''StudyInstanceUID'' @ '' kosong, menggunakan fallback: ''
                                      @ ''UNKNOWN_STUDY_'' @ py_str (PStr ''1.2.3'')) ?st)"
    by (rule natural_key_synthesized [OF no_suid uid])
  from fb no_acc nk miss(2) empty(2)
  have c: "\<exists>k pk. rows (study_tbl (db ?st1)) =
                 [\<lparr>prkey = k, cols = study_columns ?ds ''UNKNOWN_STUDY_1.2.3'' ''UNKNOWN_STUDY_1.2.3''
                                        pk (PStr ?p)\<rparr>]"
    and d: "(WARNING, ''AccessionNumber kosong, menggunakan StudyInstanceUID '' @ [CHR 0x27]
               @ ''UNKNOWN_STUDY_1.2.3'' @ [CHR 0x27] @ '' sebagai fallback.'')
              \<in> set (log ?st1)"
    by auto
  from a b c d show ?thesis by (intro conjI)
qed

end
